theory Spec2Isabelle
  imports Complex_Main
begin

section \<open>The collective-estimation simulator of freerider\_memo\_revised.py\<close>

text \<open>
  The development embeds \<^verbatim>\<open>simulate_collective_intelligence\<close> and the constant
  lookups it calls. Python floats are modelled as \<^typ>\<open>real\<close> (exact arithmetic, no
  rounding); the one place where the program produces a NaN for structural reasons, the
  sample standard deviation of fewer than two values, is modelled explicitly, and the
  accuracy expression, whose lower bound depends on rounding, is also given with the
  rounding of doubles. Python
  ints are \<^typ>\<open>int\<close>. The dictionary \<^verbatim>\<open>composition\<close> is iterated in insertion
  order, and the order fixes which draw goes to which agent, so it is an association list.
\<close>

subsection \<open>Agent types and the empirical constants\<close>

datatype AgentType = INTRINSIC | FREE_RIDER | OPT_OUT

definition intrinsic_base_participation :: real where
  "intrinsic_base_participation = 76 / 100"

definition intrinsic_incentive_participation :: real where
  "intrinsic_incentive_participation = 86 / 100"

definition freerider_base_participation :: real where
  "freerider_base_participation = 23 / 100"

definition freerider_incentive_participation :: real where
  "freerider_incentive_participation = 63 / 100"

definition intrinsic_accuracy :: real where
  "intrinsic_accuracy = 29 / 100"

definition freerider_accuracy :: real where
  "freerider_accuracy = 46 / 100"

definition intrinsic_positive_bias :: real where
  "intrinsic_positive_bias = 78 / 100"

definition freerider_negative_bias :: real where
  "freerider_negative_bias = 82 / 100"

fun participation_model :: "AgentType \<Rightarrow> bool \<Rightarrow> real" where
  "participation_model INTRINSIC has_incentive =
     (if has_incentive then intrinsic_incentive_participation
      else intrinsic_base_participation)"
| "participation_model FREE_RIDER has_incentive =
     (if has_incentive then freerider_incentive_participation
      else freerider_base_participation)"
| "participation_model OPT_OUT has_incentive = 0"

fun accuracy_model :: "AgentType \<Rightarrow> real" where
  "accuracy_model INTRINSIC = intrinsic_accuracy"
| "accuracy_model FREE_RIDER = freerider_accuracy"
| "accuracy_model OPT_OUT = 0"

fun bias_model :: "AgentType \<Rightarrow> real" where
  "bias_model INTRINSIC = intrinsic_positive_bias"
| "bias_model FREE_RIDER = freerider_negative_bias"
| "bias_model OPT_OUT = 0"

subsection \<open>The global random source\<close>

text \<open>
  \<^verbatim>\<open>np.random\<close> is one global generator. Its state is modelled by the position of
  the next call and by what the call at each position would return: the double in
  \<open>[0, 1)\<close> behind \<^verbatim>\<open>random()\<close> and \<^verbatim>\<open>uniform(lo, hi)\<close>, and the
  standard normal deviate behind \<^verbatim>\<open>normal(loc, scale)\<close>. One call is one draw.
  The generator itself is a library, not code of the repository: the state that
  \<^verbatim>\<open>np.random.seed(s)\<close> installs is the parameter \<open>gen s\<close> of the model.
\<close>

record rng =
  uniforms :: "nat \<Rightarrow> real"
  normals :: "nat \<Rightarrow> real"
  pos :: nat

type_synonym generator = "nat \<Rightarrow> rng"

definition np_random_seed :: "generator \<Rightarrow> nat \<Rightarrow> rng \<Rightarrow> rng" where
  "np_random_seed gen s g = gen s"

definition np_random_random :: "rng \<Rightarrow> real \<times> rng" where
  "np_random_random g = (uniforms g (pos g), g\<lparr>pos := Suc (pos g)\<rparr>)"

definition np_random_uniform :: "real \<Rightarrow> real \<Rightarrow> rng \<Rightarrow> real \<times> rng" where
  "np_random_uniform low high g =
     (low + (high - low) * uniforms g (pos g), g\<lparr>pos := Suc (pos g)\<rparr>)"

definition np_random_normal :: "real \<Rightarrow> real \<Rightarrow> rng \<Rightarrow> real \<times> rng" where
  "np_random_normal loc scale g =
     (loc + scale * normals g (pos g), g\<lparr>pos := Suc (pos g)\<rparr>)"

text \<open>The library's contract on the doubles behind \<^verbatim>\<open>random()\<close>.\<close>

definition unit_interval_draws :: "rng \<Rightarrow> bool" where
  "unit_interval_draws g \<longleftrightarrow> (\<forall>i. 0 \<le> uniforms g i \<and> uniforms g i < 1)"

definition np_clip :: "real \<Rightarrow> real \<Rightarrow> real \<Rightarrow> real" where
  "np_clip a a_min a_max = min a_max (max a a_min)"

definition np_mean :: "real list \<Rightarrow> real" where
  "np_mean xs = sum_list xs / real (length xs)"

subsection \<open>One trial\<close>

text \<open>
  The body of \<^verbatim>\<open>for _ in range(count)\<close>: the participation draw, and for a
  participating agent the bias draw and the noise draw, in this order.
\<close>

definition agent_step :: "AgentType \<Rightarrow> real \<Rightarrow> real list \<times> rng \<Rightarrow> real list \<times> rng" where
  "agent_step agent_type ground_truth st =
     (let ratings = fst st; g = snd st;
          participation_prob = participation_model agent_type False;
          d1 = np_random_random g
      in if fst d1 < participation_prob then
           (let individual_accuracy = accuracy_model agent_type;
                bias_prob = bias_model agent_type;
                d2 = np_random_random (snd d1);
                bias = (if agent_type = INTRINSIC
                        then (if fst d2 < bias_prob then 8 else - 2)
                        else (if fst d2 < bias_prob then - 6 else 1));
                noise_std = (if agent_type = INTRINSIC
                             then sqrt ((1 - individual_accuracy) * 400)
                             else sqrt ((1 - individual_accuracy) * 300));
                d3 = np_random_normal 0 noise_std (snd d2);
                rating = np_clip (ground_truth + bias + fst d3) 0 100
            in (ratings @ [rating], snd d3))
         else (ratings, snd d1))"

text \<open>\<^verbatim>\<open>for _ in range(count)\<close>, on the number of iterations left.\<close>

fun agents_loop :: "nat \<Rightarrow> AgentType \<Rightarrow> real \<Rightarrow> real list \<times> rng \<Rightarrow> real list \<times> rng" where
  "agents_loop 0 agent_type ground_truth st = st"
| "agents_loop (Suc k) agent_type ground_truth st =
     agents_loop k agent_type ground_truth (agent_step agent_type ground_truth st)"

text \<open>
  \<^verbatim>\<open>for agent_type, count in composition.items()\<close>. A negative \<open>count\<close> is not
  skipped by the \<^verbatim>\<open>continue\<close>, but \<^verbatim>\<open>range(count)\<close> is then empty.
\<close>

type_synonym composition = "(AgentType \<times> int) list"

fun composition_loop :: "composition \<Rightarrow> real \<Rightarrow> real list \<times> rng \<Rightarrow> real list \<times> rng" where
  "composition_loop [] ground_truth st = st"
| "composition_loop ((agent_type, count) # items) ground_truth st =
     (if agent_type = OPT_OUT \<or> count = 0
      then composition_loop items ground_truth st
      else composition_loop items ground_truth
             (agents_loop (nat count) agent_type ground_truth st))"

record trial_row =
  ground_truth :: real
  collective_estimate :: real
  accuracy :: real
  n_participants :: nat

text \<open>The ground truth of a trial and the ratings collected for it.\<close>

definition collect_ratings :: "composition \<Rightarrow> rng \<Rightarrow> real \<times> real list \<times> rng" where
  "collect_ratings compn g =
     (let d0 = np_random_uniform 20 80 g;
          st = composition_loop compn (fst d0) ([], snd d0)
      in (fst d0, fst st, snd st))"

text \<open>The collective estimate and the row appended to \<^verbatim>\<open>results\<close>.\<close>

definition aggregate :: "real \<Rightarrow> real list \<Rightarrow> trial_row" where
  "aggregate gt ratings =
     (if length ratings > 0
      then (let ce = np_mean ratings
            in \<lparr>ground_truth = gt, collective_estimate = ce,
                accuracy = 1 - \<bar>ce - gt\<bar> / 100, n_participants = length ratings\<rparr>)
      else \<lparr>ground_truth = gt, collective_estimate = 50,
            accuracy = 1 / 2, n_participants = length ratings\<rparr>)"

text \<open>The body of \<^verbatim>\<open>for sim in range(n_simulations)\<close>, with the ratings it used.\<close>

definition trial :: "composition \<Rightarrow> rng \<Rightarrow> (real list \<times> trial_row) \<times> rng" where
  "trial compn g =
     (let c = collect_ratings compn g
      in ((fst (snd c), aggregate (fst c) (fst (snd c))), snd (snd c)))"

fun trials_loop :: "nat \<Rightarrow> composition \<Rightarrow> rng \<Rightarrow> (real list \<times> trial_row) list \<times> rng" where
  "trials_loop 0 compn g = ([], g)"
| "trials_loop (Suc k) compn g =
     (let t = trial compn g; rest = trials_loop k compn (snd t)
      in (fst t # fst rest, snd rest))"

subsection \<open>The summary statistics\<close>

text \<open>
  \<^verbatim>\<open>pd.DataFrame(results)\<close> of an empty list has no columns, so selecting
  \<^verbatim>\<open>'accuracy'\<close> raises \<^verbatim>\<open>KeyError\<close>. \<^verbatim>\<open>Series.mean()\<close> is the
  arithmetic mean; \<^verbatim>\<open>Series.std()\<close> is the sample standard deviation
  (\<^verbatim>\<open>ddof=1\<close>), which is NaN when fewer than two values are present.
\<close>

datatype error = KeyError string

datatype stat = NaN | Val real

definition accuracy_column :: "trial_row list \<Rightarrow> error + real list" where
  "accuracy_column rows =
     (if rows = [] then Inl (KeyError ''accuracy'') else Inr (map accuracy rows))"

definition series_mean :: "real list \<Rightarrow> stat" where
  "series_mean xs = (if xs = [] then NaN else Val (sum_list xs / real (length xs)))"

definition series_std :: "real list \<Rightarrow> stat" where
  "series_std xs =
     (if length xs \<le> 1 then NaN
      else (let avg = sum_list xs / real (length xs)
            in Val (sqrt (sum_list (map (\<lambda>x. (avg - x)\<^sup>2) xs) / real (length xs - 1)))))"

record sim_result =
  mean_accuracy :: stat
  std_accuracy :: stat
  data :: "trial_row list"
  composition :: composition

definition default_composition :: composition where
  "default_composition = [(INTRINSIC, 10), (FREE_RIDER, 5)]"

subsection \<open>The simulation\<close>

text \<open>
  The function takes the global generator state it finds and returns the one it leaves,
  also when it raises.
\<close>

definition simulate_collective_intelligence ::
  "generator \<Rightarrow> rng \<Rightarrow> int \<Rightarrow> composition option \<Rightarrow> (error + sim_result) \<times> rng" where
  "simulate_collective_intelligence gen g0 n_simulations composition_arg =
     (let compn = (case composition_arg of None \<Rightarrow> default_composition | Some c \<Rightarrow> c);
          g = np_random_seed gen 42 g0;
          run = trials_loop (nat n_simulations) compn g;
          results = map snd (fst run)
      in (case accuracy_column results of
            Inl e \<Rightarrow> (Inl e, snd run)
          | Inr acc \<Rightarrow>
              (Inr \<lparr>mean_accuracy = series_mean acc, std_accuracy = series_std acc,
                    data = results, composition = compn\<rparr>, snd run)))"

text \<open>The ratings of each trial of a run, in trial order.\<close>

definition simulation_ratings ::
  "generator \<Rightarrow> rng \<Rightarrow> int \<Rightarrow> composition option \<Rightarrow> real list list" where
  "simulation_ratings gen g0 n_simulations composition_arg =
     (let compn = (case composition_arg of None \<Rightarrow> default_composition | Some c \<Rightarrow> c);
          g = np_random_seed gen 42 g0
      in map fst (fst (trials_loop (nat n_simulations) compn g)))"

text \<open>
  A fixed random source for evaluating the functions on concrete inputs: every double is
  \<open>1/2\<close> and every normal deviate is \<open>0\<close>, whatever the seed.
\<close>

definition half_rng :: rng where
  "half_rng = \<lparr>uniforms = (\<lambda>i. 1 / 2), normals = (\<lambda>i. 0), pos = 0\<rparr>"

definition half_gen :: generator where
  "half_gen s = half_rng"

text \<open>Every collected rating lies in the clipping range.\<close>

definition in_range :: "real list \<Rightarrow> bool" where
  "in_range rs \<longleftrightarrow> (\<forall>r\<in>set rs. 0 \<le> r \<and> r \<le> 100)"

text \<open>
  Comparisons of a summary statistic with a bound, as IEEE floats compare: every
  comparison with NaN is false.
\<close>

fun stat_ge :: "stat \<Rightarrow> real \<Rightarrow> bool" where
  "stat_ge NaN b = False"
| "stat_ge (Val v) b = (b \<le> v)"

fun stat_le :: "stat \<Rightarrow> real \<Rightarrow> bool" where
  "stat_le NaN b = False"
| "stat_le (Val v) b = (v \<le> b)"

text \<open>A second fixed random source, whose doubles are all \<open>1/10\<close>.\<close>

definition low_rng :: rng where
  "low_rng = \<lparr>uniforms = (\<lambda>i. 1 / 10), normals = (\<lambda>i. 0), pos = 0\<rparr>"

subsection \<open>The accuracy expression in double precision\<close>







section \<open>Basic facts about the loops\<close>

lemmas EMPIRICAL_PARAMS =
  intrinsic_base_participation_def intrinsic_incentive_participation_def
  freerider_base_participation_def freerider_incentive_participation_def
  intrinsic_accuracy_def freerider_accuracy_def
  intrinsic_positive_bias_def freerider_negative_bias_def

lemma agent_step_miss:
  "\<not> uniforms g (pos g) < participation_model t False \<Longrightarrow>
   agent_step t gt (rs, g) = (rs, g\<lparr>pos := pos g + 1\<rparr>)"
  by (simp add: agent_step_def Let_def np_random_random_def)

lemma agent_step_hit:
  "uniforms g (pos g) < participation_model t False \<Longrightarrow>
   agent_step t gt (rs, g) =
     (rs @ [np_clip (gt
        + (if t = INTRINSIC
           then (if uniforms g (pos g + 1) < bias_model t then 8 else - 2)
           else (if uniforms g (pos g + 1) < bias_model t then - 6 else 1))
        + (if t = INTRINSIC then sqrt ((1 - accuracy_model t) * 400)
           else sqrt ((1 - accuracy_model t) * 300)) * normals g (pos g + 2)) 0 100],
      g\<lparr>pos := pos g + 3\<rparr>)"
  by (simp add: agent_step_def Let_def np_random_random_def np_random_normal_def)

lemma np_clip_range: "0 \<le> np_clip x 0 100 \<and> np_clip x 0 100 \<le> 100"
  by (simp add: np_clip_def)

lemma agent_step_frame:
  "uniforms (snd (agent_step t gt st)) = uniforms (snd st)"
  "normals (snd (agent_step t gt st)) = normals (snd st)"
  by (simp_all add: agent_step_def Let_def np_random_random_def np_random_normal_def)

lemma agent_step_range:
  "in_range (fst st) \<Longrightarrow> in_range (fst (agent_step t gt st))"
  by (simp add: agent_step_def Let_def in_range_def np_clip_def)

lemma agents_loop_frame:
  "uniforms (snd (agents_loop k t gt st)) = uniforms (snd st)"
  "normals (snd (agents_loop k t gt st)) = normals (snd st)"
  by (induction k arbitrary: st) (simp_all add: agent_step_frame)

lemma agents_loop_range:
  "in_range (fst st) \<Longrightarrow> in_range (fst (agents_loop k t gt st))"
  by (induction k arbitrary: st) (simp_all add: agent_step_range)

lemma composition_loop_frame:
  "uniforms (snd (composition_loop c gt st)) = uniforms (snd st)"
  "normals (snd (composition_loop c gt st)) = normals (snd st)"
  by (induction c gt st rule: composition_loop.induct) (simp_all add: agents_loop_frame)

lemma composition_loop_range:
  "in_range (fst st) \<Longrightarrow> in_range (fst (composition_loop c gt st))"
  by (induction c gt st rule: composition_loop.induct) (simp_all add: agents_loop_range)

lemma trial_frame:
  "uniforms (snd (trial c g)) = uniforms g"
  "normals (snd (trial c g)) = normals g"
  by (simp_all add: trial_def collect_ratings_def Let_def composition_loop_frame
        np_random_uniform_def)

lemma trial_aggregate:
  "snd (fst (trial c g)) = aggregate (ground_truth (snd (fst (trial c g)))) (fst (fst (trial c g)))"
  by (simp add: trial_def Let_def aggregate_def)

lemma trials_loop_length: "length (fst (trials_loop k c g)) = k"
  by (induction k arbitrary: g) (simp_all add: Let_def)

lemma trials_loop_aggregate:
  "p \<in> set (fst (trials_loop k c g)) \<Longrightarrow> snd p = aggregate (ground_truth (snd p)) (fst p)"
proof (induction k arbitrary: g)
  case 0
  then show ?case by simp
next
  case (Suc k)
  then show ?case
    using trial_aggregate [of c g] by (auto simp: Let_def)
qed

lemma simulate_Inr:
  "0 < n \<Longrightarrow>
   fst (simulate_collective_intelligence gen g0 n co) =
     Inr \<lparr>mean_accuracy =
            series_mean (map accuracy (map snd (fst (trials_loop (nat n)
              (case co of None \<Rightarrow> default_composition | Some c \<Rightarrow> c) (gen 42))))),
          std_accuracy =
            series_std (map accuracy (map snd (fst (trials_loop (nat n)
              (case co of None \<Rightarrow> default_composition | Some c \<Rightarrow> c) (gen 42))))),
          data = map snd (fst (trials_loop (nat n)
              (case co of None \<Rightarrow> default_composition | Some c \<Rightarrow> c) (gen 42))),
          composition = (case co of None \<Rightarrow> default_composition | Some c \<Rightarrow> c)\<rparr>"
proof -
  assume "0 < n"
  then have "length (fst (trials_loop (nat n)
      (case co of None \<Rightarrow> default_composition | Some c \<Rightarrow> c) (gen 42))) \<noteq> 0"
    by (simp add: trials_loop_length)
  then show ?thesis
    by (simp add: simulate_collective_intelligence_def Let_def np_random_seed_def
          accuracy_column_def)
qed

lemma simulate_data:
  "fst (simulate_collective_intelligence gen g0 n co) = Inr r \<Longrightarrow>
   data r = map snd (fst (trials_loop (nat n)
              (case co of None \<Rightarrow> default_composition | Some c \<Rightarrow> c) (gen 42)))"
  by (auto simp: simulate_collective_intelligence_def Let_def np_random_seed_def
        split: sum.splits)

lemma participation_zero_iff: "participation_model t False = 0 \<longleftrightarrow> t = OPT_OUT"
  by (cases t) (simp_all add: EMPIRICAL_PARAMS)

lemma composition_loop_skip:
  "\<forall>(t, k)\<in>set c. 0 < k \<longrightarrow> t = OPT_OUT \<Longrightarrow> composition_loop c gt st = st"
  by (induction c gt st rule: composition_loop.induct) auto

lemma trial_skip:
  assumes "\<forall>(t, k)\<in>set c. 0 < k \<longrightarrow> t = OPT_OUT"
  shows "fst (trial c g) = ([], aggregate (20 + 60 * uniforms g (pos g)) [])"
  using composition_loop_skip [OF assms]
  by (simp add: trial_def collect_ratings_def Let_def np_random_uniform_def)

lemma trials_loop_skip:
  assumes "\<forall>(t, k)\<in>set c. 0 < k \<longrightarrow> t = OPT_OUT"
  shows "p \<in> set (fst (trials_loop n c g)) \<Longrightarrow>
         fst p = [] \<and> collective_estimate (snd p) = 50 \<and> accuracy (snd p) = 1 / 2
           \<and> n_participants (snd p) = 0"
proof (induction n arbitrary: g)
  case 0
  then show ?case by simp
next
  case (Suc n)
  then show ?case
    using trial_skip [OF assms, of g] by (auto simp: Let_def aggregate_def)
qed

lemma composition_loop_filter:
  "composition_loop c gt st = composition_loop (filter (\<lambda>(t, k). 0 < k) c) gt st"
  by (induction c gt st rule: composition_loop.induct) auto

lemma trial_filter: "trial c g = trial (filter (\<lambda>(t, k). 0 < k) c) g"
  using composition_loop_filter [of c]
  by (simp add: trial_def collect_ratings_def Let_def)

lemma trials_loop_filter:
  "trials_loop k c g = trials_loop k (filter (\<lambda>(t, k). 0 < k) c) g"
  by (induction k arbitrary: g) (simp_all add: Let_def trial_filter [of c])

subsection \<open>Bounds on ratings, accuracies and their means\<close>

lemma sum_list_lower: "\<forall>x\<in>set xs. a \<le> x \<Longrightarrow> a * real (length xs) \<le> sum_list xs"
  by (induction xs) (simp_all add: algebra_simps)

lemma sum_list_upper: "\<forall>x\<in>set xs. x \<le> b \<Longrightarrow> sum_list xs \<le> b * real (length xs)"
  by (induction xs) (simp_all add: algebra_simps)

lemma mean_bounds:
  assumes "xs \<noteq> []" and "\<forall>x\<in>set xs. a \<le> x \<and> x \<le> b"
  shows "a \<le> sum_list xs / real (length xs) \<and> sum_list xs / real (length xs) \<le> b"
proof -
  have l: "0 < real (length xs)"
    using assms(1) by simp
  have "a * real (length xs) \<le> sum_list xs" and "sum_list xs \<le> b * real (length xs)"
    using assms(2) by (simp_all add: sum_list_lower sum_list_upper)
  then show ?thesis
    using l by (simp add: pos_le_divide_eq pos_divide_le_eq)
qed

lemma aggregate_accuracy_bounds:
  assumes "20 \<le> gt" and "gt \<le> 80" and "in_range rs"
  shows "1 / 5 \<le> accuracy (aggregate gt rs) \<and> accuracy (aggregate gt rs) \<le> 1"
proof (cases "rs = []")
  case True
  then show ?thesis by (simp add: aggregate_def)
next
  case False
  then have "0 \<le> np_mean rs \<and> np_mean rs \<le> 100"
    using assms(3) mean_bounds [of rs 0 100] by (simp add: in_range_def np_mean_def)
  then have "\<bar>np_mean rs - gt\<bar> \<le> 80"
    using assms(1,2) by linarith
  then show ?thesis
    using False by (simp add: aggregate_def Let_def)
qed



lemma trial_accuracy_bounds:
  assumes "unit_interval_draws g"
  shows "1 / 5 \<le> accuracy (snd (fst (trial c g))) \<and> accuracy (snd (fst (trial c g))) \<le> 1"
proof -
  let ?gt = "20 + 60 * uniforms g (pos g)"
  let ?st = "composition_loop c ?gt ([], g\<lparr>pos := Suc (pos g)\<rparr>)"
  have u: "0 \<le> uniforms g (pos g) \<and> uniforms g (pos g) < 1"
    using assms by (simp add: unit_interval_draws_def)
  then have "20 \<le> ?gt" and "?gt \<le> 80"
    by simp_all
  moreover have "in_range (fst ?st)"
    by (rule composition_loop_range) (simp add: in_range_def)
  ultimately have "1 / 5 \<le> accuracy (aggregate ?gt (fst ?st))
      \<and> accuracy (aggregate ?gt (fst ?st)) \<le> 1"
    by (rule aggregate_accuracy_bounds)
  moreover have "snd (fst (trial c g)) = aggregate ?gt (fst ?st)"
    by (simp add: trial_def collect_ratings_def Let_def np_random_uniform_def)
  ultimately show ?thesis
    by simp
qed

lemma trial_unit_interval:
  "unit_interval_draws g \<Longrightarrow> unit_interval_draws (snd (trial c g))"
  by (simp add: unit_interval_draws_def trial_frame)

lemma trials_loop_accuracy_bounds:
  "unit_interval_draws g \<Longrightarrow> p \<in> set (fst (trials_loop k c g)) \<Longrightarrow>
   1 / 5 \<le> accuracy (snd p) \<and> accuracy (snd p) \<le> 1"
proof (induction k arbitrary: g)
  case 0
  then show ?case by simp
next
  case (Suc k)
  from Suc.prems(2) have "p = fst (trial c g) \<or> p \<in> set (fst (trials_loop k c (snd (trial c g))))"
    by (simp add: Let_def)
  then show ?case
  proof
    assume "p = fst (trial c g)"
    then show ?thesis
      using trial_accuracy_bounds [OF Suc.prems(1), of c] by simp
  next
    assume "p \<in> set (fst (trials_loop k c (snd (trial c g))))"
    then show ?thesis
      using Suc.IH [OF trial_unit_interval [OF Suc.prems(1)]] by simp
  qed
qed


lemma series_std_nonneg:
  assumes "2 \<le> length xs"
  shows "stat_ge (series_std xs) 0"
proof -
  have "0 \<le> sum_list (map (\<lambda>x. (a - x)\<^sup>2) xs)" for a :: real
    by (rule sum_list_nonneg) auto
  then show ?thesis
    using assms by (simp add: series_std_def Let_def)
qed

lemma series_std_single: "length xs = 1 \<Longrightarrow> series_std xs = NaN"
  by (simp add: series_std_def)

lemma series_mean_bounds:
  assumes "xs \<noteq> []" and "\<forall>x\<in>set xs. a \<le> x \<and> x \<le> b"
  shows "\<exists>m. series_mean xs = Val m \<and> a \<le> m \<and> m \<le> b"
  using mean_bounds [OF assms] assms(1) by (simp add: series_mean_def)

lemma run_accuracies:
  assumes "unit_interval_draws g"
  shows "\<forall>x\<in>set (map accuracy (map snd (fst (trials_loop k c g)))).
           1 / 5 \<le> x \<and> x \<le> 1"
proof
  fix x
  assume "x \<in> set (map accuracy (map snd (fst (trials_loop k c g))))"
  then obtain p where "p \<in> set (fst (trials_loop k c g))" and "x = accuracy (snd p)"
    by auto
  then show "1 / 5 \<le> x \<and> x \<le> 1"
    using trials_loop_accuracy_bounds [OF assms] by blast
qed

subsection \<open>Rounding to the nearest double\<close>

















subsection \<open>The accuracy a row gets in doubles\<close>







subsection \<open>Evaluation on the fixed random source\<close>

lemmas eval_defs =
  simulate_collective_intelligence_def simulation_ratings_def np_random_seed_def
  half_gen_def half_rng_def trial_def collect_ratings_def np_random_uniform_def
  agent_step_def Let_def np_random_random_def np_random_normal_def np_clip_def
  aggregate_def np_mean_def accuracy_column_def series_mean_def series_std_def
  EMPIRICAL_PARAMS

lemma half_run_1:
  "fst (simulate_collective_intelligence half_gen half_rng 1 (Some [(INTRINSIC, 1)])) =
     Inr \<lparr>mean_accuracy = Val (23 / 25), std_accuracy = NaN,
          data = [\<lparr>ground_truth = 50, collective_estimate = 58, accuracy = 23 / 25,
                   n_participants = 1\<rparr>],
          composition = [(INTRINSIC, 1)]\<rparr>"
  by (simp add: eval_defs)

lemma half_ratings_1:
  "simulation_ratings half_gen half_rng 1 (Some [(INTRINSIC, 1)]) = [[58]]"
  by (simp add: eval_defs)

lemma opt_out_run_2:
  "fst (simulate_collective_intelligence half_gen half_rng 2 (Some [(OPT_OUT, 5)])) =
     Inr \<lparr>mean_accuracy = Val (1 / 2), std_accuracy = Val 0,
          data = [\<lparr>ground_truth = 50, collective_estimate = 50, accuracy = 1 / 2,
                   n_participants = 0\<rparr>,
                  \<lparr>ground_truth = 50, collective_estimate = 50, accuracy = 1 / 2,
                   n_participants = 0\<rparr>],
          composition = [(OPT_OUT, 5)]\<rparr>"
  by (simp add: eval_defs numeral_2_eq_2)

lemma opt_out_ratings_2:
  "simulation_ratings half_gen half_rng 2 (Some [(OPT_OUT, 5)]) = [[], []]"
  by (simp add: eval_defs numeral_2_eq_2)

lemma degenerate_run_1:
  "fst (simulate_collective_intelligence half_gen half_rng 1
          (Some [(INTRINSIC, - 2), (FREE_RIDER, 0)])) =
     Inr \<lparr>mean_accuracy = Val (1 / 2), std_accuracy = NaN,
          data = [\<lparr>ground_truth = 50, collective_estimate = 50, accuracy = 1 / 2,
                   n_participants = 0\<rparr>],
          composition = [(INTRINSIC, - 2), (FREE_RIDER, 0)]\<rparr>"
  by (simp add: eval_defs)

lemma half_unit_interval: "unit_interval_draws (half_gen 42)"
  by (simp add: unit_interval_draws_def half_gen_def half_rng_def)




section \<open>The aggregation of a trial\<close>

text \<open>
  Claim C1. In every trial of a run whose list of participating ratings is not empty,
  the collective estimate is the arithmetic mean of these ratings, and the accuracy of
  the trial is 1 minus the absolute difference between the collective estimate and the
  ground truth, divided by 100.
\<close>

theorem nonempty_trial_mean_accuracy:
  assumes "fst (simulate_collective_intelligence gen g0 n co) = Inr r"
    and "i < length (data r)"
    and "simulation_ratings gen g0 n co ! i \<noteq> []"
  shows "collective_estimate (data r ! i) =
           sum_list (simulation_ratings gen g0 n co ! i)
             / real (length (simulation_ratings gen g0 n co ! i))
       \<and> accuracy (data r ! i) =
           1 - \<bar>collective_estimate (data r ! i) - ground_truth (data r ! i)\<bar> / 100"
proof -
  let ?c = "case co of None \<Rightarrow> default_composition | Some c \<Rightarrow> c"
  let ?ps = "fst (trials_loop (nat n) ?c (gen 42))"
  have d: "data r = map snd ?ps"
    using assms(1) by (rule simulate_data)
  have s: "simulation_ratings gen g0 n co = map fst ?ps"
    by (simp add: simulation_ratings_def Let_def np_random_seed_def)
  have i: "i < length ?ps"
    using assms(2) d by simp
  then have "?ps ! i \<in> set ?ps"
    by simp
  then have "snd (?ps ! i) = aggregate (ground_truth (snd (?ps ! i))) (fst (?ps ! i))"
    by (rule trials_loop_aggregate)
  moreover have "fst (?ps ! i) \<noteq> []"
    using assms(3) s i by simp
  ultimately have "snd (?ps ! i) =
      \<lparr>ground_truth = ground_truth (snd (?ps ! i)),
       collective_estimate = np_mean (fst (?ps ! i)),
       accuracy = 1 - \<bar>np_mean (fst (?ps ! i)) - ground_truth (snd (?ps ! i))\<bar> / 100,
       n_participants = length (fst (?ps ! i))\<rparr>"
    by (simp add: aggregate_def Let_def)
  then have "collective_estimate (snd (?ps ! i)) = np_mean (fst (?ps ! i))"
    and "accuracy (snd (?ps ! i)) =
           1 - \<bar>np_mean (fst (?ps ! i)) - ground_truth (snd (?ps ! i))\<bar> / 100"
    by (metis trial_row.select_convs(2), metis trial_row.select_convs(3))
  then show ?thesis
    using d s i by (simp add: np_mean_def)
qed

theorem nonempty_trial_mean_accuracy_witness:
  "fst (simulate_collective_intelligence half_gen half_rng 1 (Some [(INTRINSIC, 1)])) =
     Inr \<lparr>mean_accuracy = Val (23 / 25), std_accuracy = NaN,
          data = [\<lparr>ground_truth = 50, collective_estimate = 58, accuracy = 23 / 25,
                   n_participants = 1\<rparr>],
          composition = [(INTRINSIC, 1)]\<rparr>
   \<and> simulation_ratings half_gen half_rng 1 (Some [(INTRINSIC, 1)]) ! 0 = [58]
   \<and> collective_estimate \<lparr>ground_truth = 50, collective_estimate = 58, accuracy = 23 / 25,
                   n_participants = 1\<rparr> = sum_list [58] / real (length [58::real])
   \<and> accuracy \<lparr>ground_truth = 50, collective_estimate = 58, accuracy = 23 / 25,
                   n_participants = 1\<rparr> = 1 - \<bar>58 - 50\<bar> / 100"
  using nonempty_trial_mean_accuracy [OF half_run_1, of 0] half_run_1 half_ratings_1
  by simp

text \<open>
  Claim C2. In every trial of a run whose list of participating ratings is empty, the
  collective estimate is exactly 50 and the accuracy exactly 0.5. In particular, when
  every agent type present with a positive count has participation rate 0, every trial
  of the run has collective estimate 50 and accuracy 0.5. (Of the three types only
  \<open>OPT_OUT\<close> has rate 0, and the loop over the composition skips it.)
\<close>

theorem empty_trial_fallback:
  assumes "fst (simulate_collective_intelligence gen g0 n co) = Inr r"
  shows "(\<forall>i<length (data r). simulation_ratings gen g0 n co ! i = [] \<longrightarrow>
            collective_estimate (data r ! i) = 50 \<and> accuracy (data r ! i) = 1 / 2)
       \<and> ((\<forall>(t, k)\<in>set (case co of None \<Rightarrow> default_composition | Some c \<Rightarrow> c).
              0 < k \<longrightarrow> participation_model t False = 0) \<longrightarrow>
          (\<forall>row\<in>set (data r). collective_estimate row = 50 \<and> accuracy row = 1 / 2))"
proof -
  let ?c = "case co of None \<Rightarrow> default_composition | Some c \<Rightarrow> c"
  let ?ps = "fst (trials_loop (nat n) ?c (gen 42))"
  have d: "data r = map snd ?ps"
    using assms by (rule simulate_data)
  have s: "simulation_ratings gen g0 n co = map fst ?ps"
    by (simp add: simulation_ratings_def Let_def np_random_seed_def)
  have "collective_estimate (data r ! i) = 50 \<and> accuracy (data r ! i) = 1 / 2"
    if i: "i < length (data r)" and e: "simulation_ratings gen g0 n co ! i = []" for i
  proof -
    have "?ps ! i \<in> set ?ps"
      using i d by simp
    then have "snd (?ps ! i) = aggregate (ground_truth (snd (?ps ! i))) (fst (?ps ! i))"
      by (rule trials_loop_aggregate)
    moreover have "fst (?ps ! i) = []"
      using e s i d by simp
    ultimately have "snd (?ps ! i) =
        \<lparr>ground_truth = ground_truth (snd (?ps ! i)), collective_estimate = 50,
         accuracy = 1 / 2, n_participants = 0\<rparr>"
      by (simp add: aggregate_def)
    then have "collective_estimate (snd (?ps ! i)) = 50" and "accuracy (snd (?ps ! i)) = 1 / 2"
      by (metis trial_row.select_convs(2), metis trial_row.select_convs(3))
    then show ?thesis
      using d i by simp
  qed
  moreover have "\<forall>row\<in>set (data r). collective_estimate row = 50 \<and> accuracy row = 1 / 2"
    if z: "\<forall>(t, k)\<in>set ?c. 0 < k \<longrightarrow> participation_model t False = 0"
  proof -
    from z have "\<forall>(t, k)\<in>set ?c. 0 < k \<longrightarrow> t = OPT_OUT"
      by (simp add: participation_zero_iff)
    then show ?thesis
      using trials_loop_skip [of ?c _ "nat n" "gen 42"] d by auto
  qed
  ultimately show ?thesis
    by blast
qed

theorem empty_trial_fallback_witness:
  "fst (simulate_collective_intelligence half_gen half_rng 2 (Some [(OPT_OUT, 5)])) =
     Inr \<lparr>mean_accuracy = Val (1 / 2), std_accuracy = Val 0,
          data = [\<lparr>ground_truth = 50, collective_estimate = 50, accuracy = 1 / 2,
                   n_participants = 0\<rparr>,
                  \<lparr>ground_truth = 50, collective_estimate = 50, accuracy = 1 / 2,
                   n_participants = 0\<rparr>],
          composition = [(OPT_OUT, 5)]\<rparr>
   \<and> simulation_ratings half_gen half_rng 2 (Some [(OPT_OUT, 5)]) ! 1 = []
   \<and> (0::int) < 5 \<and> participation_model OPT_OUT False = 0
   \<and> collective_estimate (data (projr (fst (simulate_collective_intelligence half_gen half_rng 2
         (Some [(OPT_OUT, 5)])))) ! 1) = 50
   \<and> accuracy (data (projr (fst (simulate_collective_intelligence half_gen half_rng 2
         (Some [(OPT_OUT, 5)])))) ! 1) = 1 / 2"
  using empty_trial_fallback [OF opt_out_run_2] opt_out_run_2 opt_out_ratings_2
  by simp

section \<open>The rating of an agent\<close>

text \<open>
  Claim C3. The rating of a participating agent is the ground truth plus a bias offset
  plus Gaussian noise, clipped to the interval from 0 to 100. An \<open>INTRINSIC\<close> agent
  (which participates when its first draw is below 0.76) has offset +8 when its bias
  draw is below 0.78 and -2 otherwise, and noise of standard deviation
  \<open>sqrt ((1 - 0.29) * 400)\<close>; a \<open>FREE_RIDER\<close> agent (first draw below 0.23) has
  offset -6 when its bias draw is below 0.82 and +1 otherwise, and noise of standard
  deviation \<open>sqrt ((1 - 0.46) * 300)\<close>. The Bernoulli draws are threshold tests on a
  uniform double; the noise is the standard deviation times a standard normal deviate.
\<close>

theorem participating_rating_formula:
  "(uniforms g (pos g) < 76 / 100 \<longrightarrow>
      fst (agent_step INTRINSIC gt (rs, g)) =
        rs @ [np_clip (gt + (if uniforms g (pos g + 1) < 78 / 100 then 8 else - 2)
                + sqrt ((1 - 29 / 100) * 400) * normals g (pos g + 2)) 0 100])
 \<and> (uniforms g (pos g) < 23 / 100 \<longrightarrow>
      fst (agent_step FREE_RIDER gt (rs, g)) =
        rs @ [np_clip (gt + (if uniforms g (pos g + 1) < 82 / 100 then - 6 else 1)
                + sqrt ((1 - 46 / 100) * 300) * normals g (pos g + 2)) 0 100])
 \<and> np_clip x 0 100 = (if x < 0 then 0 else if 100 < x then 100 else x)"
  by (simp add: agent_step_hit EMPIRICAL_PARAMS np_clip_def)

theorem participating_rating_formula_witness:
  "uniforms low_rng (pos low_rng) < 76 / 100
 \<and> fst (agent_step INTRINSIC 50 ([], low_rng)) = [58]
 \<and> uniforms low_rng (pos low_rng) < 23 / 100
 \<and> fst (agent_step FREE_RIDER 50 ([], low_rng)) = [44]"
  using participating_rating_formula [of low_rng 50 "[]" 0]
  by (simp add: low_rng_def np_clip_def)

text \<open>
  Claim C8. The number of draws an agent consumes is fixed by the branch taken. An
  \<open>OPT_OUT\<close> entry of the composition, whatever its count, consumes no draw and adds no
  rating. An agent of another type whose participation draw fails consumes exactly one
  draw and adds no rating. A participating agent consumes exactly three draws and adds
  one rating: the draw at the current position decides participation, the next one
  the bias, and the third one is the noise.
\<close>

theorem agent_draw_counts:
  "composition_loop ((OPT_OUT, count) # items) gt st = composition_loop items gt st
 \<and> (t \<noteq> OPT_OUT \<and> \<not> uniforms g (pos g) < participation_model t False \<longrightarrow>
      agent_step t gt (rs, g) = (rs, g\<lparr>pos := pos g + 1\<rparr>))
 \<and> (t \<noteq> OPT_OUT \<and> uniforms g (pos g) < participation_model t False \<longrightarrow>
      agent_step t gt (rs, g) =
        (rs @ [np_clip (gt
           + (if t = INTRINSIC
              then (if uniforms g (pos g + 1) < bias_model t then 8 else - 2)
              else (if uniforms g (pos g + 1) < bias_model t then - 6 else 1))
           + (if t = INTRINSIC then sqrt ((1 - accuracy_model t) * 400)
              else sqrt ((1 - accuracy_model t) * 300)) * normals g (pos g + 2)) 0 100],
         g\<lparr>pos := pos g + 3\<rparr>))"
  using agent_step_miss [of g t gt rs] agent_step_hit [of g t gt rs]
  by simp

theorem agent_draw_counts_witness:
  "composition_loop [(OPT_OUT, 4)] 50 ([], half_rng) = ([], half_rng)
 \<and> FREE_RIDER \<noteq> OPT_OUT
 \<and> \<not> uniforms half_rng (pos half_rng) < participation_model FREE_RIDER False
 \<and> agent_step FREE_RIDER 50 ([], half_rng) = ([], half_rng\<lparr>pos := 1\<rparr>)
 \<and> INTRINSIC \<noteq> OPT_OUT
 \<and> uniforms half_rng (pos half_rng) < participation_model INTRINSIC False
 \<and> agent_step INTRINSIC 50 ([], half_rng) = ([58], half_rng\<lparr>pos := 3\<rparr>)"
  using agent_draw_counts [of 4 "[]" 50 "([], half_rng)" FREE_RIDER half_rng "[]"]
    agent_draw_counts [of 4 "[]" 50 "([], half_rng)" INTRINSIC half_rng "[]"]
  by (simp add: half_rng_def EMPIRICAL_PARAMS np_clip_def)

section \<open>The run as a whole\<close>

text \<open>
  Claim C5. Two runs with the same seed, composition and trial count give the same
  per-trial ground truths and rows, the same ratings and the same summary statistics.
  The function installs the seed 42 itself, so nothing of the generator state it finds
  reaches the result: the runs agree from any two incoming states, and they leave the
  same state behind.
\<close>

theorem simulation_deterministic:
  "simulate_collective_intelligence gen g1 n co = simulate_collective_intelligence gen g2 n co
 \<and> simulation_ratings gen g1 n co = simulation_ratings gen g2 n co"
  by (simp add: simulate_collective_intelligence_def simulation_ratings_def np_random_seed_def)

text \<open>
  Claim C6, as amended. For every trial count \<open>n \<le> 0\<close> no summary is produced, but not
  by a check of the count: the function installs the seed, runs zero trials, and
  selecting the accuracy column of the empty table raises \<open>KeyError\<close>. The generator
  state left behind is the freshly seeded one.
\<close>

theorem nonpositive_trial_count_key_error:
  "n \<le> 0 \<Longrightarrow>
   simulate_collective_intelligence gen g0 n co = (Inl (KeyError ''accuracy''), gen 42)"
  by (simp add: simulate_collective_intelligence_def np_random_seed_def accuracy_column_def)

theorem nonpositive_trial_count_key_error_witness:
  "(- 3 :: int) \<le> 0
 \<and> simulate_collective_intelligence half_gen half_rng (- 3) (Some [(INTRINSIC, 7), (FREE_RIDER, 7)])
     = (Inl (KeyError ''accuracy''), half_rng)"
  using nonpositive_trial_count_key_error [of "- 3" half_gen half_rng "Some [(INTRINSIC, 7), (FREE_RIDER, 7)]"]
  by (simp add: half_gen_def)

text \<open>
  The claim as stated fails at \<open>n = 0\<close>: the error is the \<open>KeyError\<close> of the column
  selection, and the run has already replaced the global generator state when it is
  raised.
\<close>

theorem zero_trials_fail_after_seeding:
  "simulate_collective_intelligence half_gen (half_rng\<lparr>pos := 7\<rparr>) 0 (Some [(INTRINSIC, 1)])
     = (Inl (KeyError ''accuracy''), half_rng)
 \<and> half_rng \<noteq> half_rng\<lparr>pos := 7\<rparr>"
  by (simp add: simulate_collective_intelligence_def np_random_seed_def accuracy_column_def
        half_gen_def half_rng_def)

text \<open>
  Claim C7, as amended. A composition whose total count is zero or that contains a
  negative count is not rejected. With a positive trial count the run returns a
  summary over all \<open>n\<close> trials, echoing the composition it was given; its rows and
  statistics are those of the composition with the non-positive counts removed; and
  when no count is positive every trial is degenerate (estimate 50, accuracy 0.5, no
  participant).
\<close>

theorem degenerate_composition_runs:
  assumes "0 < n"
    and "sum_list (map snd c) = 0 \<or> (\<exists>(t, k)\<in>set c. k < 0)"
  shows "\<exists>r r'. fst (simulate_collective_intelligence gen g0 n (Some c)) = Inr r
           \<and> fst (simulate_collective_intelligence gen g0 n
                   (Some (filter (\<lambda>(t, k). 0 < k) c))) = Inr r'
           \<and> length (data r) = nat n \<and> composition r = c
           \<and> data r = data r' \<and> mean_accuracy r = mean_accuracy r'
           \<and> std_accuracy r = std_accuracy r'
           \<and> ((\<forall>(t, k)\<in>set c. k \<le> 0) \<longrightarrow>
                (\<forall>row\<in>set (data r). collective_estimate row = 50 \<and> accuracy row = 1 / 2
                    \<and> n_participants row = 0))"
proof -
  let ?f = "filter (\<lambda>(t, k). 0 < k) c"
  let ?ps = "fst (trials_loop (nat n) c (gen 42))"
  have "(\<forall>row\<in>set (map snd ?ps). collective_estimate row = 50 \<and> accuracy row = 1 / 2
            \<and> n_participants row = 0)"
    if "\<forall>(t, k)\<in>set c. k \<le> 0"
  proof -
    from that have "\<forall>(t, k)\<in>set c. 0 < k \<longrightarrow> t = OPT_OUT"
      by fastforce
    then show ?thesis
      using trials_loop_skip [of c _ "nat n" "gen 42"] by auto
  qed
  then show ?thesis
    using simulate_Inr [OF assms(1), of gen g0 "Some c"]
      simulate_Inr [OF assms(1), of gen g0 "Some ?f"]
      trials_loop_filter [of "nat n" c "gen 42"]
    by (simp add: trials_loop_length)
qed

theorem degenerate_composition_runs_witness:
  "(0::int) < 1
 \<and> (\<exists>(t, k)\<in>set [(INTRINSIC, - 2), (FREE_RIDER, 0 :: int)]. k < 0)
 \<and> (- 2 :: int) \<le> 0 \<and> (0::int) \<le> 0
 \<and> fst (simulate_collective_intelligence half_gen half_rng 1
          (Some [(INTRINSIC, - 2), (FREE_RIDER, 0)])) =
     Inr \<lparr>mean_accuracy = Val (1 / 2), std_accuracy = NaN,
          data = [\<lparr>ground_truth = 50, collective_estimate = 50, accuracy = 1 / 2,
                   n_participants = 0\<rparr>],
          composition = [(INTRINSIC, - 2), (FREE_RIDER, 0)]\<rparr>
 \<and> fst (simulate_collective_intelligence half_gen half_rng 1
          (Some (filter (\<lambda>(t, k). 0 < k) [(INTRINSIC, - 2), (FREE_RIDER, 0)]))) =
     Inr \<lparr>mean_accuracy = Val (1 / 2), std_accuracy = NaN,
          data = [\<lparr>ground_truth = 50, collective_estimate = 50, accuracy = 1 / 2,
                   n_participants = 0\<rparr>],
          composition = []\<rparr>"
  using degenerate_composition_runs [of 1 "[(INTRINSIC, - 2), (FREE_RIDER, 0)]" half_gen half_rng]
    degenerate_run_1
  by (simp add: eval_defs)

text \<open>
  The claim as stated fails for the composition with \<open>INTRINSIC\<close> at -1 and
  \<open>FREE_RIDER\<close> at 0: two trials give a summary, not an error.
\<close>

theorem negative_count_not_rejected:
  "fst (simulate_collective_intelligence half_gen half_rng 2
          (Some [(INTRINSIC, - 1), (FREE_RIDER, 0)])) =
     Inr \<lparr>mean_accuracy = Val (1 / 2), std_accuracy = Val 0,
          data = [\<lparr>ground_truth = 50, collective_estimate = 50, accuracy = 1 / 2,
                   n_participants = 0\<rparr>,
                  \<lparr>ground_truth = 50, collective_estimate = 50, accuracy = 1 / 2,
                   n_participants = 0\<rparr>],
          composition = [(INTRINSIC, - 1), (FREE_RIDER, 0)]\<rparr>"
  by (simp add: eval_defs numeral_2_eq_2)

section \<open>Bounds on the summary\<close>




text \<open>
  Claim C4, as amended. For every composition and every trial count of at least 2, the
  mean accuracy lies between 0 and 1 and the standard deviation of the accuracy is at
  least 0. With exactly one trial the mean accuracy still lies between 0 and 1, but
  the standard deviation is NaN: it is the sample standard deviation, which divides
  by the number of trials minus one.
\<close>

theorem summary_statistics_bounds:
  assumes "unit_interval_draws (gen 42)" and "0 < n"
  shows "\<exists>r. fst (simulate_collective_intelligence gen g0 n co) = Inr r
           \<and> stat_ge (mean_accuracy r) 0 \<and> stat_le (mean_accuracy r) 1
           \<and> (if n = 1 then std_accuracy r = NaN else stat_ge (std_accuracy r) 0)"
proof -
  let ?c = "case co of None \<Rightarrow> default_composition | Some c \<Rightarrow> c"
  let ?rows = "map snd (fst (trials_loop (nat n) ?c (gen 42)))"
  let ?acc = "map accuracy ?rows"
  let ?r = "\<lparr>mean_accuracy = series_mean ?acc, std_accuracy = series_std ?acc,
             data = ?rows, composition = ?c\<rparr>"
  have run: "fst (simulate_collective_intelligence gen g0 n co) = Inr ?r"
    using assms(2) by (rule simulate_Inr)
  have b: "\<forall>x\<in>set ?acc. 1 / 5 \<le> x \<and> x \<le> 1"
    using assms(1) by (rule run_accuracies)
  have l: "length ?acc = nat n"
    by (simp add: trials_loop_length)
  then have "?acc \<noteq> []"
    using assms(2) by auto
  then obtain m where "series_mean ?acc = Val m" and "1 / 5 \<le> m" and "m \<le> 1"
    using series_mean_bounds [OF _ b] by blast
  then have m: "stat_ge (mean_accuracy ?r) 0 \<and> stat_le (mean_accuracy ?r) 1"
    by simp
  have s: "if n = 1 then std_accuracy ?r = NaN else stat_ge (std_accuracy ?r) 0"
  proof (cases "n = 1")
    case True
    then have "length ?acc = 1"
      using l by simp
    then have "series_std ?acc = NaN"
      by (rule series_std_single)
    then show ?thesis
      using True by simp
  next
    case False
    then have "2 \<le> length ?acc"
      using assms(2) l by simp
    then have "stat_ge (series_std ?acc) 0"
      by (rule series_std_nonneg)
    then show ?thesis
      using False by simp
  qed
  from run m s show ?thesis
    by blast
qed

theorem summary_statistics_bounds_witness:
  "unit_interval_draws (half_gen 42) \<and> (0::int) < 2
 \<and> (\<exists>r. fst (simulate_collective_intelligence half_gen half_rng 2 (Some [(INTRINSIC, 1)]))
             = Inr r
        \<and> stat_ge (mean_accuracy r) 0 \<and> stat_le (mean_accuracy r) 1
        \<and> stat_ge (std_accuracy r) 0)"
proof -
  have n: "(0::int) < 2" and n1: "(2::int) \<noteq> 1"
    by simp_all
  show ?thesis
    using summary_statistics_bounds [of half_gen 2 half_rng "Some [(INTRINSIC, 1)]"] half_unit_interval n n1
    by auto
qed

text \<open>
  The claim as stated fails for one trial of the composition with a single
  \<open>INTRINSIC\<close> agent: the standard deviation is NaN, which is not at least 0.
\<close>

theorem single_trial_std_is_nan:
  "unit_interval_draws (half_gen 42) \<and> (0::int) < 1
 \<and> \<not> stat_ge (std_accuracy (projr (fst (simulate_collective_intelligence half_gen half_rng 1
          (Some [(INTRINSIC, 1)]))))) 0"
  by (simp add: half_run_1 half_unit_interval)

end
